theory Spec2Isabelle
  imports Complex_Main
begin

section \<open>The portal library as the two profiles use it\<close>

text \<open>
  Both profiles are scripts over the portal library (\<^verbatim>\<open>geni.portal\<close>, \<^verbatim>\<open>geni.rspec.pg\<close>),
  which is not part of the repository. The scripts only construct objects, assign attributes
  and append to lists, so the library objects are modelled as records holding exactly the
  attributes the scripts touch, and the request as the ordered list of the resources that
  \<^verbatim>\<open>request.RawPC\<close> and \<^verbatim>\<open>request.Link\<close> have created so far. A Python object reference is
  the position of the object in that list (a handle); assigning to an attribute of an object
  updates the list at its handle.
\<close>

subsection \<open>Parameter errors and the context\<close>

record ParameterError =
  message :: string
  paramList :: "string list"

record Context =
  parameterErrors :: "ParameterError list"

text \<open>Modelled from the spec: \<^verbatim>\<open>portal.context.reportError\<close> collects the error; nothing is
  surfaced yet.\<close>

definition reportError :: "ParameterError \<Rightarrow> Context \<Rightarrow> Context" where
  "reportError perr ctx = ctx\<lparr>parameterErrors := parameterErrors ctx @ [perr]\<rparr>"

text \<open>Modelled from the spec: \<^verbatim>\<open>portal.context.verifyParameters\<close> reports all collected
  parameter errors and halts the script when there is at least one; otherwise the script goes
  on. Halting is the value \<open>Inl\<close> carrying the reported errors.\<close>

definition verifyParameters :: "Context \<Rightarrow> ParameterError list + Context" where
  "verifyParameters ctx =
     (if parameterErrors ctx = [] then Inr ctx else Inl (parameterErrors ctx))"

subsection \<open>Resources\<close>

record Execute =
  shell :: string
  command :: string

record IPv4Address =
  address :: string
  netmask :: string

record Interface =
  if_name :: string
  addresses :: "IPv4Address list"

record RawPC =
  node_name :: string
  hardware_type :: "string option"
  disk_image :: "string option"
  component_id :: "string option"
  component_manager_id :: "string option"
  services :: "Execute list"
  interfaces :: "Interface list"

type_synonym handle = nat

text \<open>Modelled from the spec: a link connects its ends in the order in which the script
  attaches them, and an end is what the script attaches: an interface of a node
  (\<^verbatim>\<open>radio_link.addInterface(node_radio_if)\<close>) or a node as a whole
  (\<^verbatim>\<open>radio_link.addNode(radio)\<close>).\<close>

datatype endpoint = InterfaceOf handle string | NodeOf handle

record Link =
  link_name :: string
  bandwidth :: "int option"
  endpoints :: "endpoint list"

datatype resource = NodeR RawPC | LinkR Link

text \<open>Modelled from the spec: the request owns its nodes and links, in creation order, and
  its spectrum reservations, each a triple of minimum frequency, maximum frequency and the
  third argument of \<^verbatim>\<open>requestSpectrum\<close>.\<close>

record Request =
  resources :: "resource list"
  spectrum :: "(real \<times> real \<times> int) list"

definition makeRequestRSpec :: Request where
  "makeRequestRSpec = \<lparr>resources = [], spectrum = []\<rparr>"

fun on_node :: "(RawPC \<Rightarrow> RawPC) \<Rightarrow> resource \<Rightarrow> resource" where
  "on_node f (NodeR n) = NodeR (f n)"
| "on_node f (LinkR l) = LinkR l"

fun on_link :: "(Link \<Rightarrow> Link) \<Rightarrow> resource \<Rightarrow> resource" where
  "on_link f (LinkR l) = LinkR (f l)"
| "on_link f (NodeR n) = NodeR n"

text \<open>Mutation of the object behind a handle. A handle returned by \<open>Request_RawPC\<close> or
  \<open>Request_Link\<close> is always in range; for any other number the request is left as it is.\<close>

definition update_resource :: "handle \<Rightarrow> (resource \<Rightarrow> resource) \<Rightarrow> Request \<Rightarrow> Request" where
  "update_resource h f request =
     (if h < length (resources request)
      then request\<lparr>resources := (resources request)[h := f (resources request ! h)]\<rparr>
      else request)"

definition Request_Link :: "string \<Rightarrow> Request \<Rightarrow> handle \<times> Request" where
  "Request_Link nm request =
     (length (resources request),
      request\<lparr>resources := resources request @
        [LinkR \<lparr>link_name = nm, bandwidth = None, endpoints = []\<rparr>]\<rparr>)"

definition Request_RawPC :: "string \<Rightarrow> Request \<Rightarrow> handle \<times> Request" where
  "Request_RawPC nm request =
     (length (resources request),
      request\<lparr>resources := resources request @
        [NodeR \<lparr>node_name = nm, hardware_type = None, disk_image = None,
                component_id = None, component_manager_id = None,
                services = [], interfaces = []\<rparr>]\<rparr>)"

definition set_bandwidth :: "handle \<Rightarrow> int \<Rightarrow> Request \<Rightarrow> Request" where
  "set_bandwidth l v = update_resource l (on_link (\<lambda>x. x\<lparr>bandwidth := Some v\<rparr>))"

definition set_hardware_type :: "handle \<Rightarrow> string \<Rightarrow> Request \<Rightarrow> Request" where
  "set_hardware_type n v = update_resource n (on_node (\<lambda>x. x\<lparr>hardware_type := Some v\<rparr>))"

definition set_disk_image :: "handle \<Rightarrow> string \<Rightarrow> Request \<Rightarrow> Request" where
  "set_disk_image n v = update_resource n (on_node (\<lambda>x. x\<lparr>disk_image := Some v\<rparr>))"

definition set_component_id :: "handle \<Rightarrow> string \<Rightarrow> Request \<Rightarrow> Request" where
  "set_component_id n v = update_resource n (on_node (\<lambda>x. x\<lparr>component_id := Some v\<rparr>))"

definition set_component_manager_id :: "handle \<Rightarrow> string \<Rightarrow> Request \<Rightarrow> Request" where
  "set_component_manager_id n v =
     update_resource n (on_node (\<lambda>x. x\<lparr>component_manager_id := Some v\<rparr>))"

definition addService :: "handle \<Rightarrow> Execute \<Rightarrow> Request \<Rightarrow> Request" where
  "addService n ex = update_resource n (on_node (\<lambda>x. x\<lparr>services := services x @ [ex]\<rparr>))"

text \<open>\<^verbatim>\<open>node.addInterface(name)\<close> returns the new interface object: the pair of the owning
  node's handle and the interface name.\<close>

definition addInterface :: "handle \<Rightarrow> string \<Rightarrow> Request \<Rightarrow> (handle \<times> string) \<times> Request" where
  "addInterface n nm request =
     ((n, nm),
      update_resource n
        (on_node (\<lambda>x. x\<lparr>interfaces := interfaces x @ [\<lparr>if_name = nm, addresses = []\<rparr>]\<rparr>))
        request)"

definition addAddress :: "handle \<times> string \<Rightarrow> IPv4Address \<Rightarrow> Request \<Rightarrow> Request" where
  "addAddress iface addr =
     update_resource (fst iface)
       (on_node (\<lambda>x. x\<lparr>interfaces :=
          map (\<lambda>i. if if_name i = snd iface then i\<lparr>addresses := addresses i @ [addr]\<rparr> else i)
              (interfaces x)\<rparr>))"

definition Link_addInterface :: "handle \<Rightarrow> handle \<times> string \<Rightarrow> Request \<Rightarrow> Request" where
  "Link_addInterface l iface =
     update_resource l
       (on_link (\<lambda>x. x\<lparr>endpoints := endpoints x @ [InterfaceOf (fst iface) (snd iface)]\<rparr>))"

definition Link_addNode :: "handle \<Rightarrow> handle \<Rightarrow> Request \<Rightarrow> Request" where
  "Link_addNode l n =
     update_resource l (on_link (\<lambda>x. x\<lparr>endpoints := endpoints x @ [NodeOf n]\<rparr>))"

definition requestSpectrum :: "real \<Rightarrow> real \<Rightarrow> int \<Rightarrow> Request \<Rightarrow> Request" where
  "requestSpectrum lo hi pwr request =
     request\<lparr>spectrum := spectrum request @ [(lo, hi, pwr)]\<rparr>"

subsection \<open>Python string helpers\<close>

text \<open>\<^verbatim>\<open>"%d" % idx\<close> for the non-negative indices that \<^verbatim>\<open>enumerate\<close> yields.\<close>

fun str_of_nat :: "nat \<Rightarrow> string" where
  "str_of_nat n =
     (if n < 10 then [''0123456789'' ! n]
      else str_of_nat (n div 10) @ [''0123456789'' ! (n mod 10)])"

declare str_of_nat.simps [simp del]

text \<open>\<^verbatim>\<open>os.path.join(a, b)\<close> on POSIX for two components.\<close>

definition os_path_join :: "string \<Rightarrow> string \<Rightarrow> string" where
  "os_path_join a b =
     (if b \<noteq> [] \<and> hd b = CHR ''/'' then b
      else if a = [] \<or> last a = CHR ''/'' then a @ b
      else a @ ''/'' @ b)"

section \<open>The OTA-lab profile (profiles/srslte-otalab.py)\<close>

record x310_radio =
  radio_name :: string

record b210_node_otalab =
  node_id :: string

record otalab_params =
  x310_pair_nodetype :: string
  x310_radios :: "x310_radio list"
  b210_nodes :: "b210_node_otalab list"
  ul_freq_min :: real
  ul_freq_max :: real
  dl_freq_min :: real
  dl_freq_max :: real

definition BIN_PATH :: string where
  "BIN_PATH = ''/local/repository/bin''"

definition DEFAULT_SRSRAN_HASH :: string where
  "DEFAULT_SRSRAN_HASH = ''release_22_04''"

definition SRSLTE_IMG :: string where
  "SRSLTE_IMG = ''urn:publicid:IDN+emulab.net+image+PowderTeam:U18LL-SRSLTE''"

definition MNGR_ID :: string where
  "MNGR_ID = ''urn:publicid:IDN+emulab.net+authority+cm''"

definition SRS_DEPLOY_SCRIPT :: string where
  "SRS_DEPLOY_SCRIPT = os_path_join BIN_PATH ''deploy-srs.sh''"

definition x310_node_pair_otalab ::
  "otalab_params \<Rightarrow> nat \<Rightarrow> x310_radio \<Rightarrow> Request \<Rightarrow> Request" where
  "x310_node_pair_otalab params idx x310_radio request =
     (let (radio_link, request) = Request_Link (''radio-link-'' @ str_of_nat idx) request;
          request = set_bandwidth radio_link (10 * 1000 * 1000) request;
          (node, request) = Request_RawPC (radio_name x310_radio @ ''-comp'') request;
          request = set_hardware_type node (x310_pair_nodetype params) request;
          request = set_disk_image node SRSLTE_IMG request;
          request = set_component_manager_id node MNGR_ID request;
          request = addService node
            \<lparr>shell = ''bash'',
             command = ''/local/repository/bin/add-nat-and-ip-forwarding.sh''\<rparr> request;
          request = addService node
            \<lparr>shell = ''bash'', command = ''/local/repository/bin/tune-cpu.sh''\<rparr> request;
          request = addService node
            \<lparr>shell = ''bash'', command = ''/local/repository/bin/tune-sdr-iface.sh''\<rparr> request;
          cmd = SRS_DEPLOY_SCRIPT @ '' '' @ DEFAULT_SRSRAN_HASH;
          request = addService node \<lparr>shell = ''bash'', command = cmd\<rparr> request;
          (node_radio_if, request) = addInterface node ''usrp_if'' request;
          request = addAddress node_radio_if
            \<lparr>address = ''192.168.40.1'', netmask = ''255.255.255.0''\<rparr> request;
          request = Link_addInterface radio_link node_radio_if request;
          (radio, request) = Request_RawPC (radio_name x310_radio @ ''-radio'') request;
          request = set_component_id radio (radio_name x310_radio) request;
          request = set_component_manager_id radio
            ''urn:publicid:IDN+emulab.net+authority+cm'' request;
          request = Link_addNode radio_link radio request
      in request)"

definition b210_nuc_pair_otalab :: "nat \<Rightarrow> b210_node_otalab \<Rightarrow> Request \<Rightarrow> Request" where
  "b210_nuc_pair_otalab idx b210_node request =
     (let (b210_nuc_pair_node, request) = Request_RawPC (node_id b210_node @ ''-b210'') request;
          request = set_component_id b210_nuc_pair_node (node_id b210_node) request;
          request = set_disk_image b210_nuc_pair_node SRSLTE_IMG request;
          request = addService b210_nuc_pair_node
            \<lparr>shell = ''bash'', command = ''/local/repository/bin/update-config-files.sh''\<rparr>
            request;
          request = addService b210_nuc_pair_node
            \<lparr>shell = ''bash'', command = ''/local/repository/bin/tune-cpu.sh''\<rparr> request;
          cmd = SRS_DEPLOY_SCRIPT @ '' '' @ DEFAULT_SRSRAN_HASH;
          request = addService b210_nuc_pair_node \<lparr>shell = ''bash'', command = cmd\<rparr> request
      in request)"

text \<open>The four checks of lines 286 to 299, each reporting its own error. The frequency
  parameters are of the portal's bandwidth type (Python floats); they are modelled as reals.
  On finite floats the comparisons of the script are exact, and so is the subtraction
  whenever both operands lie in the band (they then share a binade); not-a-number and
  infinite values are outside the model.\<close>

definition check_frequency_parameters :: "otalab_params \<Rightarrow> Context \<Rightarrow> Context" where
  "check_frequency_parameters params ctx =
     (let ctx =
            (if ul_freq_min params < 3358 \<or> ul_freq_min params > 3600
                \<or> ul_freq_max params < 3358 \<or> ul_freq_max params > 3600
             then reportError
               \<lparr>message = ''CBAND uplink frequencies must be between 3358 and 3600 MHz'',
                paramList = [''ul_freq_min'', ''ul_freq_max'']\<rparr> ctx
             else ctx);
          ctx =
            (if ul_freq_max params - ul_freq_min params < 1
             then reportError
               \<lparr>message = ''Minimum and maximum frequencies must be separated by at least 1 MHz'',
                paramList = [''ul_freq_min'', ''ul_freq_max'']\<rparr> ctx
             else ctx);
          ctx =
            (if dl_freq_min params < 3358 \<or> dl_freq_min params > 3600
                \<or> dl_freq_max params < 3358 \<or> dl_freq_max params > 3600
             then reportError
               \<lparr>message = ''CBAND downlink frequencies must be between 3358 and 3600 MHz'',
                paramList = [''dl_freq_min'', ''dl_freq_max'']\<rparr> ctx
             else ctx);
          ctx =
            (if dl_freq_max params - dl_freq_min params < 1
             then reportError
               \<lparr>message = ''Minimum and maximum frequencies must be separated by at least 1 MHz'',
                paramList = [''dl_freq_min'', ''dl_freq_max'']\<rparr> ctx
             else ctx)
      in ctx)"

text \<open>The two builder loops of lines 307 to 311.\<close>

definition x310_pairs_otalab :: "otalab_params \<Rightarrow> Request \<Rightarrow> Request" where
  "x310_pairs_otalab params request =
     fold (\<lambda>(i, x310_radio). x310_node_pair_otalab params i x310_radio)
          (enumerate 0 (x310_radios params)) request"

definition b210_pairs_otalab :: "otalab_params \<Rightarrow> Request \<Rightarrow> Request" where
  "b210_pairs_otalab params request =
     fold (\<lambda>(i, b210_node). b210_nuc_pair_otalab i b210_node)
          (enumerate 0 (b210_nodes params)) request"

text \<open>The script from \<^verbatim>\<open>bindParameters\<close> to \<^verbatim>\<open>printRequestRSpec\<close>. The result is either
  the parameter errors with which \<^verbatim>\<open>verifyParameters\<close> halted the script, or the request
  that was printed.\<close>

definition srslte_otalab :: "otalab_params \<Rightarrow> ParameterError list + Request" where
  "srslte_otalab params =
     (let ctx = \<lparr>parameterErrors = []\<rparr>;
          ctx = check_frequency_parameters params ctx
      in case verifyParameters ctx of
           Inl errors \<Rightarrow> Inl errors
         | Inr ctx \<Rightarrow>
             (let request = makeRequestRSpec;
                  request = x310_pairs_otalab params request;
                  request = b210_pairs_otalab params request;
                  request = requestSpectrum (ul_freq_min params) (ul_freq_max params) 0 request;
                  request = requestSpectrum (dl_freq_min params) (dl_freq_max params) 0 request
              in Inr request))"

section \<open>The general-deployment profile (profile.py)\<close>

record b210_node =
  aggregate_id :: string

record profile_params =
  x310_pair_nodetype :: string
  token :: string
  user :: string
  password :: string
  x310_radios :: "x310_radio list"
  b210_nodes :: "b210_node list"

definition x310_node_pair ::
  "profile_params \<Rightarrow> nat \<Rightarrow> x310_radio \<Rightarrow> string \<Rightarrow> string \<Rightarrow> string \<Rightarrow> Request \<Rightarrow> Request"
  where
  "x310_node_pair params idx x310_radio token' user' password' request =
     (let (radio_link, request) = Request_Link (''radio-link-'' @ str_of_nat idx) request;
          request = set_bandwidth radio_link (10 * 1000 * 1000) request;
          (node, request) = Request_RawPC (radio_name x310_radio @ ''-comp'') request;
          request = set_hardware_type node (x310_pair_nodetype params) request;
          request = set_disk_image node
            ''urn:publicid:IDN+emulab.net+image+emulab-ops:UBUNTU18-64-STD'' request;
          request = set_component_manager_id node
            ''urn:publicid:IDN+emulab.net+authority+cm'' request;
          request = addService node
            \<lparr>shell = ''bash'',
             command = ''/local/repository/bin/add-nat-and-ip-forwarding.sh''\<rparr> request;
          request = addService node
            \<lparr>shell = ''bash'', command = ''/local/repository/bin/update-config-files.sh''\<rparr>
            request;
          request = addService node
            \<lparr>shell = ''bash'', command = ''/local/repository/bin/tune-cpu.sh''\<rparr> request;
          request = addService node
            \<lparr>shell = ''bash'', command = ''/local/repository/bin/tune-sdr-iface.sh''\<rparr> request;
          request = addService node
            \<lparr>shell = ''bash'',
             command = ''/local/repository/bin/setup.sh '' @ token' @ '' '' @ user' @ '' ''
                       @ password'\<rparr> request;
          (node_radio_if, request) = addInterface node ''usrp_if'' request;
          request = addAddress node_radio_if
            \<lparr>address = ''192.168.40.1'', netmask = ''255.255.255.0''\<rparr> request;
          request = Link_addInterface radio_link node_radio_if request;
          (radio, request) = Request_RawPC (radio_name x310_radio @ ''-x310'') request;
          request = set_component_id radio (radio_name x310_radio) request;
          request = set_component_manager_id radio
            ''urn:publicid:IDN+emulab.net+authority+cm'' request;
          request = Link_addNode radio_link radio request
      in request)"

definition b210_nuc_pair ::
  "nat \<Rightarrow> b210_node \<Rightarrow> string \<Rightarrow> string \<Rightarrow> string \<Rightarrow> Request \<Rightarrow> Request" where
  "b210_nuc_pair idx b210_node token' user' password' request =
     (let (b210_nuc_pair_node, request) =
            Request_RawPC (''b210-'' @ aggregate_id b210_node @ ''-'' @ ''nuc2'') request;
          agg_full_name = ''urn:publicid:IDN+'' @ aggregate_id b210_node
                          @ ''.powderwireless.net+authority+cm'';
          request = set_component_manager_id b210_nuc_pair_node agg_full_name request;
          request = set_component_id b210_nuc_pair_node ''nuc2'' request;
          request = set_disk_image b210_nuc_pair_node
            ''urn:publicid:IDN+emulab.net+image+emulab-ops:UBUNTU18-64-STD'' request;
          request = addService b210_nuc_pair_node
            \<lparr>shell = ''bash'', command = ''/local/repository/bin/update-config-files.sh''\<rparr>
            request;
          request = addService b210_nuc_pair_node
            \<lparr>shell = ''bash'', command = ''/local/repository/bin/tune-cpu.sh''\<rparr> request;
          request = addService b210_nuc_pair_node
            \<lparr>shell = ''bash'',
             command = ''/local/repository/bin/setup.sh '' @ token' @ '' '' @ user' @ '' ''
                       @ password'\<rparr> request
      in request)"

text \<open>The two builder loops of lines 283 to 287.\<close>

definition x310_pairs :: "profile_params \<Rightarrow> Request \<Rightarrow> Request" where
  "x310_pairs params request =
     fold (\<lambda>(i, x310_radio).
             x310_node_pair params i x310_radio (token params) (user params) (password params))
          (enumerate 0 (x310_radios params)) request"

definition b210_pairs :: "profile_params \<Rightarrow> Request \<Rightarrow> Request" where
  "b210_pairs params request =
     fold (\<lambda>(i, b210_node).
             b210_nuc_pair i b210_node (token params) (user params) (password params))
          (enumerate 0 (b210_nodes params)) request"

text \<open>The script from \<^verbatim>\<open>bindParameters\<close> to \<^verbatim>\<open>printRequestRSpec\<close>; it reports no
  parameter error of its own before \<^verbatim>\<open>verifyParameters\<close>.\<close>

definition profile :: "profile_params \<Rightarrow> ParameterError list + Request" where
  "profile params =
     (let ctx = \<lparr>parameterErrors = []\<rparr>
      in case verifyParameters ctx of
           Inl errors \<Rightarrow> Inl errors
         | Inr ctx \<Rightarrow>
             (let request = makeRequestRSpec;
                  request = x310_pairs params request;
                  request = b210_pairs params request
              in Inr request))"

section \<open>Reading a request\<close>

text \<open>
  The specification's data model distinguishes three kinds of resources in a request: Links,
  RadioComponents and ResourceNodes. In the scripts a RadioComponent is the raw PC that is
  handed as a whole to \<^verbatim>\<open>radio_link.addNode\<close>; every other raw PC is a ResourceNode. The
  three functions below list the handles of each kind in creation order.
\<close>

fun is_link :: "resource \<Rightarrow> bool" where
  "is_link (LinkR l) = True"
| "is_link (NodeR n) = False"

fun is_node :: "resource \<Rightarrow> bool" where
  "is_node (NodeR n) = True"
| "is_node (LinkR l) = False"

fun attached_node :: "endpoint \<Rightarrow> handle list" where
  "attached_node (NodeOf h) = [h]"
| "attached_node (InterfaceOf h nm) = []"

fun attached_nodes :: "resource \<Rightarrow> handle list" where
  "attached_nodes (LinkR l) = concat (map attached_node (endpoints l))"
| "attached_nodes (NodeR n) = []"

definition radio_handles :: "Request \<Rightarrow> handle list" where
  "radio_handles request = concat (map attached_nodes (resources request))"

definition Links :: "Request \<Rightarrow> handle list" where
  "Links request =
     filter (\<lambda>h. is_link (resources request ! h)) [0..<length (resources request)]"

definition RadioComponents :: "Request \<Rightarrow> handle list" where
  "RadioComponents request =
     filter (\<lambda>h. is_node (resources request ! h) \<and> h \<in> set (radio_handles request))
            [0..<length (resources request)]"

definition ResourceNodes :: "Request \<Rightarrow> handle list" where
  "ResourceNodes request =
     filter (\<lambda>h. is_node (resources request ! h) \<and> h \<notin> set (radio_handles request))
            [0..<length (resources request)]"

text \<open>The \<open>i\<close>-th link, the \<open>i\<close>-th ResourceNode and the \<open>i\<close>-th RadioComponent of a request
  form the pair of the radio selection \<open>x310_radio\<close>: the link has exactly two ends, the
  \<^verbatim>\<open>usrp_if\<close> interface of that node and that radio component; the node has such an interface
  and is named after the selected radio, and the radio component is the selected radio.\<close>

definition link_joins_pair :: "Request \<Rightarrow> nat \<Rightarrow> x310_radio \<Rightarrow> bool" where
  "link_joins_pair request i x310_radio =
     (case (resources request ! (Links request ! i),
            resources request ! (ResourceNodes request ! i),
            resources request ! (RadioComponents request ! i)) of
        (LinkR l, NodeR node, NodeR radio) \<Rightarrow>
          endpoints l = [InterfaceOf (ResourceNodes request ! i) ''usrp_if'',
                         NodeOf (RadioComponents request ! i)]
          \<and> ''usrp_if'' \<in> set (map if_name (interfaces node))
          \<and> node_name node = radio_name x310_radio @ ''-comp''
          \<and> component_id radio = Some (radio_name x310_radio)
      | _ \<Rightarrow> False)"

section \<open>Closed forms of the builders\<close>

text \<open>
  What one call of a pair builder leaves behind, written as the finished objects. The lemmas
  of the next section show that the builders, which create the objects empty and then
  mutate them, append exactly these.
\<close>

definition comp_node_otalab :: "otalab_params \<Rightarrow> x310_radio \<Rightarrow> RawPC" where
  "comp_node_otalab params r =
     \<lparr>node_name = radio_name r @ ''-comp'',
      hardware_type = Some (otalab_params.x310_pair_nodetype params),
      disk_image = Some SRSLTE_IMG,
      component_id = None,
      component_manager_id = Some MNGR_ID,
      services =
        [\<lparr>shell = ''bash'', command = ''/local/repository/bin/add-nat-and-ip-forwarding.sh''\<rparr>,
         \<lparr>shell = ''bash'', command = ''/local/repository/bin/tune-cpu.sh''\<rparr>,
         \<lparr>shell = ''bash'', command = ''/local/repository/bin/tune-sdr-iface.sh''\<rparr>,
         \<lparr>shell = ''bash'', command = ''/local/repository/bin/deploy-srs.sh release_22_04''\<rparr>],
      interfaces =
        [\<lparr>if_name = ''usrp_if'',
          addresses = [\<lparr>address = ''192.168.40.1'', netmask = ''255.255.255.0''\<rparr>]\<rparr>]\<rparr>"

definition radio_node_otalab :: "x310_radio \<Rightarrow> RawPC" where
  "radio_node_otalab r =
     \<lparr>node_name = radio_name r @ ''-radio'',
      hardware_type = None, disk_image = None,
      component_id = Some (radio_name r),
      component_manager_id = Some ''urn:publicid:IDN+emulab.net+authority+cm'',
      services = [], interfaces = []\<rparr>"

definition ue_node_otalab :: "b210_node_otalab \<Rightarrow> RawPC" where
  "ue_node_otalab b =
     \<lparr>node_name = node_id b @ ''-b210'',
      hardware_type = None,
      disk_image = Some SRSLTE_IMG,
      component_id = Some (node_id b),
      component_manager_id = None,
      services =
        [\<lparr>shell = ''bash'', command = ''/local/repository/bin/update-config-files.sh''\<rparr>,
         \<lparr>shell = ''bash'', command = ''/local/repository/bin/tune-cpu.sh''\<rparr>,
         \<lparr>shell = ''bash'', command = ''/local/repository/bin/deploy-srs.sh release_22_04''\<rparr>],
      interfaces = []\<rparr>"

definition setup_command :: "profile_params \<Rightarrow> Execute" where
  "setup_command params =
     \<lparr>shell = ''bash'',
      command = ''/local/repository/bin/setup.sh '' @ token params @ '' '' @ user params
                @ '' '' @ password params\<rparr>"

definition comp_node :: "profile_params \<Rightarrow> x310_radio \<Rightarrow> RawPC" where
  "comp_node params r =
     \<lparr>node_name = radio_name r @ ''-comp'',
      hardware_type = Some (x310_pair_nodetype params),
      disk_image = Some ''urn:publicid:IDN+emulab.net+image+emulab-ops:UBUNTU18-64-STD'',
      component_id = None,
      component_manager_id = Some ''urn:publicid:IDN+emulab.net+authority+cm'',
      services =
        [\<lparr>shell = ''bash'', command = ''/local/repository/bin/add-nat-and-ip-forwarding.sh''\<rparr>,
         \<lparr>shell = ''bash'', command = ''/local/repository/bin/update-config-files.sh''\<rparr>,
         \<lparr>shell = ''bash'', command = ''/local/repository/bin/tune-cpu.sh''\<rparr>,
         \<lparr>shell = ''bash'', command = ''/local/repository/bin/tune-sdr-iface.sh''\<rparr>,
         setup_command params],
      interfaces =
        [\<lparr>if_name = ''usrp_if'',
          addresses = [\<lparr>address = ''192.168.40.1'', netmask = ''255.255.255.0''\<rparr>]\<rparr>]\<rparr>"

definition radio_node :: "x310_radio \<Rightarrow> RawPC" where
  "radio_node r =
     \<lparr>node_name = radio_name r @ ''-x310'',
      hardware_type = None, disk_image = None,
      component_id = Some (radio_name r),
      component_manager_id = Some ''urn:publicid:IDN+emulab.net+authority+cm'',
      services = [], interfaces = []\<rparr>"

definition ue_node :: "profile_params \<Rightarrow> b210_node \<Rightarrow> RawPC" where
  "ue_node params b =
     \<lparr>node_name = ''b210-'' @ aggregate_id b @ ''-nuc2'',
      hardware_type = None,
      disk_image = Some ''urn:publicid:IDN+emulab.net+image+emulab-ops:UBUNTU18-64-STD'',
      component_id = Some ''nuc2'',
      component_manager_id =
        Some (''urn:publicid:IDN+'' @ aggregate_id b @ ''.powderwireless.net+authority+cm''),
      services =
        [\<lparr>shell = ''bash'', command = ''/local/repository/bin/update-config-files.sh''\<rparr>,
         \<lparr>shell = ''bash'', command = ''/local/repository/bin/tune-cpu.sh''\<rparr>,
         setup_command params],
      interfaces = []\<rparr>"

text \<open>The link of a pair whose first resource sits at position \<open>base\<close>: it joins the
  \<^verbatim>\<open>usrp_if\<close> interface of the node created right after it and the radio created after
  that.\<close>

definition radio_link_of :: "nat \<Rightarrow> nat \<Rightarrow> Link" where
  "radio_link_of base idx =
     \<lparr>link_name = ''radio-link-'' @ str_of_nat idx,
      bandwidth = Some 10000000,
      endpoints = [InterfaceOf (Suc base) ''usrp_if'', NodeOf (Suc (Suc base))]\<rparr>"

fun triples ::
  "(x310_radio \<Rightarrow> RawPC) \<Rightarrow> (x310_radio \<Rightarrow> RawPC) \<Rightarrow> nat \<Rightarrow> nat \<Rightarrow> x310_radio list
     \<Rightarrow> resource list" where
  "triples mk_node mk_radio base idx [] = []"
| "triples mk_node mk_radio base idx (r # rs) =
     LinkR (radio_link_of base idx) # NodeR (mk_node r) # NodeR (mk_radio r)
       # triples mk_node mk_radio (base + 3) (Suc idx) rs"

section \<open>Example parameter sets\<close>

text \<open>The OTA-lab profile at its declared defaults (compute node type d430, uplink 3550 to
  3570 MHz, downlink 3580 to 3600 MHz) with the hardware set of its instructions: one X310,
  \<^verbatim>\<open>ota-x310-1\<close>, and one B210 node, \<^verbatim>\<open>ota-nuc1\<close>.\<close>

definition otalab_defaults :: otalab_params where
  "otalab_defaults =
     \<lparr>otalab_params.x310_pair_nodetype = ''d430'',
      otalab_params.x310_radios = [\<lparr>radio_name = ''ota-x310-1''\<rparr>],
      otalab_params.b210_nodes = [\<lparr>node_id = ''ota-nuc1''\<rparr>],
      ul_freq_min = 3550, ul_freq_max = 3570,
      dl_freq_min = 3580, dl_freq_max = 3600\<rparr>"

text \<open>The request that the OTA-lab profile prints at these defaults.\<close>

definition otalab_defaults_request :: Request where
  "otalab_defaults_request =
     \<lparr>resources =
        [LinkR \<lparr>link_name = ''radio-link-0'', bandwidth = Some 10000000,
                endpoints = [InterfaceOf 1 ''usrp_if'', NodeOf 2]\<rparr>,
         NodeR \<lparr>node_name = ''ota-x310-1-comp'',
                hardware_type = Some ''d430'',
                disk_image = Some ''urn:publicid:IDN+emulab.net+image+PowderTeam:U18LL-SRSLTE'',
                component_id = None,
                component_manager_id = Some ''urn:publicid:IDN+emulab.net+authority+cm'',
                services =
                  [\<lparr>shell = ''bash'',
                    command = ''/local/repository/bin/add-nat-and-ip-forwarding.sh''\<rparr>,
                   \<lparr>shell = ''bash'', command = ''/local/repository/bin/tune-cpu.sh''\<rparr>,
                   \<lparr>shell = ''bash'', command = ''/local/repository/bin/tune-sdr-iface.sh''\<rparr>,
                   \<lparr>shell = ''bash'',
                    command = ''/local/repository/bin/deploy-srs.sh release_22_04''\<rparr>],
                interfaces =
                  [\<lparr>if_name = ''usrp_if'',
                    addresses =
                      [\<lparr>address = ''192.168.40.1'', netmask = ''255.255.255.0''\<rparr>]\<rparr>]\<rparr>,
         NodeR \<lparr>node_name = ''ota-x310-1-radio'',
                hardware_type = None, disk_image = None,
                component_id = Some ''ota-x310-1'',
                component_manager_id = Some ''urn:publicid:IDN+emulab.net+authority+cm'',
                services = [], interfaces = []\<rparr>,
         NodeR \<lparr>node_name = ''ota-nuc1-b210'',
                hardware_type = None,
                disk_image = Some ''urn:publicid:IDN+emulab.net+image+PowderTeam:U18LL-SRSLTE'',
                component_id = Some ''ota-nuc1'',
                component_manager_id = None,
                services =
                  [\<lparr>shell = ''bash'',
                    command = ''/local/repository/bin/update-config-files.sh''\<rparr>,
                   \<lparr>shell = ''bash'', command = ''/local/repository/bin/tune-cpu.sh''\<rparr>,
                   \<lparr>shell = ''bash'',
                    command = ''/local/repository/bin/deploy-srs.sh release_22_04''\<rparr>],
                interfaces = []\<rparr>],
      spectrum = [(3550, 3570, 0), (3580, 3600, 0)]\<rparr>"

text \<open>The general-deployment profile at its declared defaults (compute node type d740, empty
  token, user and password) with the hardware set of its instructions: the X310
  \<^verbatim>\<open>cellsdr1-browning\<close> and the fixed endpoint of aggregate \<^verbatim>\<open>web\<close>.\<close>

definition profile_defaults :: profile_params where
  "profile_defaults =
     \<lparr>x310_pair_nodetype = ''d740'',
      token = [], user = [], password = [],
      x310_radios = [\<lparr>radio_name = ''cellsdr1-browning''\<rparr>],
      b210_nodes = [\<lparr>aggregate_id = ''web''\<rparr>]\<rparr>"

text \<open>The request that the general-deployment profile prints at these defaults.\<close>

definition profile_defaults_request :: Request where
  "profile_defaults_request =
     \<lparr>resources =
        [LinkR \<lparr>link_name = ''radio-link-0'', bandwidth = Some 10000000,
                endpoints = [InterfaceOf 1 ''usrp_if'', NodeOf 2]\<rparr>,
         NodeR \<lparr>node_name = ''cellsdr1-browning-comp'',
                hardware_type = Some ''d740'',
                disk_image =
                  Some ''urn:publicid:IDN+emulab.net+image+emulab-ops:UBUNTU18-64-STD'',
                component_id = None,
                component_manager_id = Some ''urn:publicid:IDN+emulab.net+authority+cm'',
                services =
                  [\<lparr>shell = ''bash'',
                    command = ''/local/repository/bin/add-nat-and-ip-forwarding.sh''\<rparr>,
                   \<lparr>shell = ''bash'',
                    command = ''/local/repository/bin/update-config-files.sh''\<rparr>,
                   \<lparr>shell = ''bash'', command = ''/local/repository/bin/tune-cpu.sh''\<rparr>,
                   \<lparr>shell = ''bash'', command = ''/local/repository/bin/tune-sdr-iface.sh''\<rparr>,
                   \<lparr>shell = ''bash'', command = ''/local/repository/bin/setup.sh   ''\<rparr>],
                interfaces =
                  [\<lparr>if_name = ''usrp_if'',
                    addresses =
                      [\<lparr>address = ''192.168.40.1'', netmask = ''255.255.255.0''\<rparr>]\<rparr>]\<rparr>,
         NodeR \<lparr>node_name = ''cellsdr1-browning-x310'',
                hardware_type = None, disk_image = None,
                component_id = Some ''cellsdr1-browning'',
                component_manager_id = Some ''urn:publicid:IDN+emulab.net+authority+cm'',
                services = [], interfaces = []\<rparr>,
         NodeR \<lparr>node_name = ''b210-web-nuc2'',
                hardware_type = None,
                disk_image =
                  Some ''urn:publicid:IDN+emulab.net+image+emulab-ops:UBUNTU18-64-STD'',
                component_id = Some ''nuc2'',
                component_manager_id =
                  Some ''urn:publicid:IDN+web.powderwireless.net+authority+cm'',
                services =
                  [\<lparr>shell = ''bash'',
                    command = ''/local/repository/bin/update-config-files.sh''\<rparr>,
                   \<lparr>shell = ''bash'', command = ''/local/repository/bin/tune-cpu.sh''\<rparr>,
                   \<lparr>shell = ''bash'', command = ''/local/repository/bin/setup.sh   ''\<rparr>],
                interfaces = []\<rparr>],
      spectrum = []\<rparr>"

section \<open>The builders append finished objects\<close>

lemma SRS_DEPLOY_SCRIPT_eq: "SRS_DEPLOY_SCRIPT = ''/local/repository/bin/deploy-srs.sh''"
  by (simp add: SRS_DEPLOY_SCRIPT_def os_path_join_def BIN_PATH_def)

lemma update_resource_last:
  "update_resource (length pre) f (request\<lparr>resources := pre @ [x]\<rparr>) =
     request\<lparr>resources := pre @ [f x]\<rparr>"
  by (simp add: update_resource_def)

lemma update_resource_first2:
  "update_resource (length pre) f (request\<lparr>resources := pre @ [x, y]\<rparr>) =
     request\<lparr>resources := pre @ [f x, y]\<rparr>"
  by (simp add: update_resource_def nth_append list_update_append)

lemma update_resource_last2:
  "update_resource (Suc (length pre)) f (request\<lparr>resources := pre @ [x, y]\<rparr>) =
     request\<lparr>resources := pre @ [x, f y]\<rparr>"
  by (simp add: update_resource_def nth_append list_update_append)

lemma update_resource_first3:
  "update_resource (length pre) f (request\<lparr>resources := pre @ [x, y, z]\<rparr>) =
     request\<lparr>resources := pre @ [f x, y, z]\<rparr>"
  by (simp add: update_resource_def nth_append list_update_append)

lemma update_resource_last3:
  "update_resource (Suc (Suc (length pre))) f (request\<lparr>resources := pre @ [x, y, z]\<rparr>) =
     request\<lparr>resources := pre @ [x, y, f z]\<rparr>"
  by (simp add: update_resource_def nth_append list_update_append)

lemmas object_defs = Request_Link_def Request_RawPC_def set_bandwidth_def set_hardware_type_def
  set_disk_image_def set_component_id_def set_component_manager_id_def addService_def
  addInterface_def addAddress_def Link_addInterface_def Link_addNode_def

lemmas update_resource_simps = update_resource_last update_resource_first2
  update_resource_last2 update_resource_first3 update_resource_last3

lemma x310_node_pair_otalab_appends:
  "x310_node_pair_otalab params idx r request =
     request\<lparr>resources := resources request @
       [LinkR (radio_link_of (length (resources request)) idx),
        NodeR (comp_node_otalab params r), NodeR (radio_node_otalab r)]\<rparr>"
  by (simp add: x310_node_pair_otalab_def object_defs update_resource_simps radio_link_of_def
      comp_node_otalab_def radio_node_otalab_def SRS_DEPLOY_SCRIPT_eq DEFAULT_SRSRAN_HASH_def)

lemma b210_nuc_pair_otalab_appends:
  "b210_nuc_pair_otalab idx b request =
     request\<lparr>resources := resources request @ [NodeR (ue_node_otalab b)]\<rparr>"
  by (simp add: b210_nuc_pair_otalab_def object_defs update_resource_simps
      ue_node_otalab_def SRS_DEPLOY_SCRIPT_eq DEFAULT_SRSRAN_HASH_def)

lemma x310_node_pair_appends:
  "x310_node_pair params idx r (token params) (user params) (password params) request =
     request\<lparr>resources := resources request @
       [LinkR (radio_link_of (length (resources request)) idx),
        NodeR (comp_node params r), NodeR (radio_node r)]\<rparr>"
  by (simp add: x310_node_pair_def object_defs update_resource_simps radio_link_of_def
      comp_node_def radio_node_def setup_command_def)

lemma b210_nuc_pair_appends:
  "b210_nuc_pair idx b (token params) (user params) (password params) request =
     request\<lparr>resources := resources request @ [NodeR (ue_node params b)]\<rparr>"
  by (simp add: b210_nuc_pair_def object_defs update_resource_simps
      ue_node_def setup_command_def)

lemma fold_triples:
  assumes step: "\<And>i r request. f i r request =
     request\<lparr>resources := resources request @
       [LinkR (radio_link_of (length (resources request)) i), NodeR (mk_node r), NodeR (mk_radio r)]\<rparr>"
  shows "fold (\<lambda>(i, r). f i r) (enumerate idx rs) request =
     request\<lparr>resources := resources request @
        triples mk_node mk_radio (length (resources request)) idx rs\<rparr>"
proof (induction rs arbitrary: idx request)
  case Nil
  show ?case by simp
next
  case (Cons r rs)
  have "fold (\<lambda>(i, r). f i r) (enumerate idx (r # rs)) request =
        fold (\<lambda>(i, r). f i r) (enumerate (Suc idx) rs) (f idx r request)"
    by simp
  also have "\<dots> = (f idx r request)\<lparr>resources := resources (f idx r request) @
        triples mk_node mk_radio (length (resources (f idx r request))) (Suc idx) rs\<rparr>"
    by (rule Cons.IH)
  also have "\<dots> = request\<lparr>resources := resources request @
        triples mk_node mk_radio (length (resources request)) idx (r # rs)\<rparr>"
    by (simp add: step numeral_3_eq_3)
  finally show ?case .
qed

lemma fold_nodes:
  assumes step: "\<And>i b request. f i b request =
     request\<lparr>resources := resources request @ [NodeR (mk b)]\<rparr>"
  shows "fold (\<lambda>(i, b). f i b) (enumerate idx bs) request =
     request\<lparr>resources := resources request @ map (\<lambda>b. NodeR (mk b)) bs\<rparr>"
proof (induction bs arbitrary: idx request)
  case Nil
  show ?case by simp
next
  case (Cons b bs)
  have "fold (\<lambda>(i, b). f i b) (enumerate idx (b # bs)) request =
        fold (\<lambda>(i, b). f i b) (enumerate (Suc idx) bs) (f idx b request)"
    by simp
  also have "\<dots> = (f idx b request)\<lparr>resources := resources (f idx b request) @
        map (\<lambda>b. NodeR (mk b)) bs\<rparr>"
    by (rule Cons.IH)
  also have "\<dots> = request\<lparr>resources := resources request @
        map (\<lambda>b. NodeR (mk b)) (b # bs)\<rparr>"
    by (simp add: step)
  finally show ?case .
qed

lemma x310_pairs_otalab_appends:
  "x310_pairs_otalab params request =
     request\<lparr>resources := resources request @
        triples (comp_node_otalab params) radio_node_otalab (length (resources request)) 0
          (otalab_params.x310_radios params)\<rparr>"
  unfolding x310_pairs_otalab_def
  by (rule fold_triples) (rule x310_node_pair_otalab_appends)

lemma b210_pairs_otalab_appends:
  "b210_pairs_otalab params request =
     request\<lparr>resources := resources request @
        map (\<lambda>b. NodeR (ue_node_otalab b)) (otalab_params.b210_nodes params)\<rparr>"
  unfolding b210_pairs_otalab_def
  by (rule fold_nodes) (rule b210_nuc_pair_otalab_appends)

lemma x310_pairs_appends:
  "x310_pairs params request =
     request\<lparr>resources := resources request @
        triples (comp_node params) radio_node (length (resources request)) 0
          (x310_radios params)\<rparr>"
  unfolding x310_pairs_def
  by (rule fold_triples) (rule x310_node_pair_appends)

lemma b210_pairs_appends:
  "b210_pairs params request =
     request\<lparr>resources := resources request @
        map (\<lambda>b. NodeR (ue_node params b)) (b210_nodes params)\<rparr>"
  unfolding b210_pairs_def
  by (rule fold_nodes) (rule b210_nuc_pair_appends)

section \<open>The scripts in closed form\<close>

lemma no_errors_iff:
  "parameterErrors (check_frequency_parameters params \<lparr>parameterErrors = []\<rparr>) = [] \<longleftrightarrow>
     3358 \<le> ul_freq_min params \<and> ul_freq_min params \<le> 3600 \<and>
     3358 \<le> ul_freq_max params \<and> ul_freq_max params \<le> 3600 \<and>
     3358 \<le> dl_freq_min params \<and> dl_freq_min params \<le> 3600 \<and>
     3358 \<le> dl_freq_max params \<and> dl_freq_max params \<le> 3600 \<and>
     1 \<le> ul_freq_max params - ul_freq_min params \<and>
     1 \<le> dl_freq_max params - dl_freq_min params"
  by (auto simp add: check_frequency_parameters_def reportError_def Let_def)

lemma srslte_otalab_closed:
  "srslte_otalab params =
     (if parameterErrors (check_frequency_parameters params \<lparr>parameterErrors = []\<rparr>) = []
      then Inr \<lparr>resources =
                  triples (comp_node_otalab params) radio_node_otalab 0 0
                    (otalab_params.x310_radios params)
                  @ map (\<lambda>b. NodeR (ue_node_otalab b)) (otalab_params.b210_nodes params),
                spectrum = [(ul_freq_min params, ul_freq_max params, 0),
                            (dl_freq_min params, dl_freq_max params, 0)]\<rparr>
      else Inl (parameterErrors (check_frequency_parameters params \<lparr>parameterErrors = []\<rparr>)))"
  by (simp add: srslte_otalab_def verifyParameters_def makeRequestRSpec_def
      x310_pairs_otalab_appends b210_pairs_otalab_appends requestSpectrum_def)

lemma profile_closed:
  "profile params =
     Inr \<lparr>resources =
            triples (comp_node params) radio_node 0 0 (x310_radios params)
            @ map (\<lambda>b. NodeR (ue_node params b)) (b210_nodes params),
          spectrum = []\<rparr>"
  by (simp add: profile_def verifyParameters_def makeRequestRSpec_def
      x310_pairs_appends b210_pairs_appends)

section \<open>Positions and kinds of the resources of a request\<close>

lemma length_triples [simp]: "length (triples mk_node mk_radio base idx rs) = 3 * length rs"
  by (induction rs arbitrary: base idx) simp_all

lemma nth_past_three:
  "(x # y # z # xs) ! (3 * Suc j + k) = xs ! (3 * j + k)"
  by (simp add: numeral_3_eq_3)

lemma triples_nth:
  "i < length rs \<Longrightarrow>
     triples mk_node mk_radio base idx rs ! (3 * i + 0) = LinkR (radio_link_of (base + 3 * i) (idx + i)) \<and>
     triples mk_node mk_radio base idx rs ! (3 * i + 1) = NodeR (mk_node (rs ! i)) \<and>
     triples mk_node mk_radio base idx rs ! (3 * i + 2) = NodeR (mk_radio (rs ! i))"
proof (induction rs arbitrary: base idx i)
  case Nil
  then show ?case by simp
next
  case (Cons r rs)
  show ?case
  proof (cases i)
    case 0
    then show ?thesis by simp
  next
    case (Suc j)
    with Cons.prems have j: "j < length rs" by simp
    have arg: "base + 3 + 3 * j = base + 3 * Suc j" "Suc idx + j = idx + Suc j"
      "rs ! j = (r # rs) ! Suc j"
      by simp_all
    from Cons.IH [OF j, of "base + 3" "Suc idx"] show ?thesis
      unfolding Suc triples.simps nth_past_three arg .
  qed
qed

lemma attached_nodes_triples:
  "concat (map attached_nodes (triples mk_node mk_radio base idx rs)) =
     map (\<lambda>i. base + 3 * i + 2) [0..<length rs]"
proof (induction rs arbitrary: base idx)
  case Nil
  show ?case by simp
next
  case (Cons r rs)
  have "map (\<lambda>i. base + 3 * i + 2) [0..<length (r # rs)] =
        (base + 2) # map (\<lambda>i. (base + 3) + 3 * i + 2) [0..<length rs]"
    by (simp add: upt_rec [of 0] map_Suc_upt [symmetric] del: upt_Suc)
  with Cons.IH [of "base + 3" "Suc idx"] show ?case
    by (simp add: radio_link_of_def)
qed

lemma attached_nodes_nodes:
  "concat (map attached_nodes (map (\<lambda>b. NodeR (mk b)) bs)) = []"
  by (induction bs) simp_all

lemma filter_mod3:
  "c < 3 \<Longrightarrow> filter (\<lambda>h. h mod 3 = c) [0..<3 * n] = map (\<lambda>i. 3 * i + c) [0..<n]"
proof (induction n)
  case 0
  show ?case by simp
next
  case (Suc n)
  have "[0..<3 * Suc n] = [0..<3 * n] @ [3 * n..<3 * n + 3]"
    using upt_add_eq_append [of 0 "3 * n" 3] by (simp add: add.commute)
  moreover have "[3 * n..<3 * n + 3] = [3 * n, 3 * n + 1, 3 * n + 2]"
    by (simp add: upt_conv_Cons)
  moreover have "filter (\<lambda>h. h mod 3 = c) [3 * n, 3 * n + 1, 3 * n + 2] = [3 * n + c]"
    using Suc.prems by (auto simp add: mod_Suc) 
  ultimately show ?case using Suc by simp
qed

lemma triples_kind:
  "h < 3 * length rs \<Longrightarrow>
     is_link (triples mk_node mk_radio base idx rs ! h) = (h mod 3 = 0) \<and>
     is_node (triples mk_node mk_radio base idx rs ! h) = (h mod 3 \<noteq> 0)"
proof (induction rs arbitrary: base idx h)
  case Nil
  then show ?case by simp
next
  case (Cons r rs)
  show ?case
  proof (cases "h < 3")
    case True
    then have "h = 0 \<or> h = 1 \<or> h = 2" by arith
    then show ?thesis by (elim disjE) simp_all
  next
    case False
    then obtain k where h: "h = 3 + k"
      using le_Suc_ex [of 3 h] by auto
    with Cons.prems have k: "k < 3 * length rs" by simp
    have m: "(3 + k) mod 3 = k mod 3" by simp
    have n: "(x # y # z # xs) ! (3 + k) = xs ! k" for x y z :: resource and xs
      by (simp add: numeral_3_eq_3)
    from Cons.IH [OF k, of "base + 3" "Suc idx"] show ?thesis
      unfolding h m triples.simps n .
  qed
qed

lemma radio_handles_closed:
  "radio_handles \<lparr>resources = triples mk_node mk_radio 0 idx rs @ map (\<lambda>b. NodeR (mk b)) bs,
                  spectrum = s\<rparr> = map (\<lambda>i. 3 * i + 2) [0..<length rs]"
  by (simp add: radio_handles_def attached_nodes_triples attached_nodes_nodes)

lemma in_radio_handles_iff:
  "h \<in> set (map (\<lambda>i. 3 * i + 2) [0..<n]) \<longleftrightarrow> h < 3 * n \<and> h mod 3 = 2"
proof
  assume "h \<in> set (map (\<lambda>i. 3 * i + 2) [0..<n])"
  then obtain i where "i < n" "h = 3 * i + 2" by auto
  then show "h < 3 * n \<and> h mod 3 = 2" by presburger
next
  assume a: "h < 3 * n \<and> h mod 3 = 2"
  then have "h div 3 < n" "h = 3 * (h div 3) + 2" by presburger+
  then have "h \<in> (\<lambda>i. 3 * i + 2) ` {0..<n}" by (intro image_eqI [of _ _ "h div 3"]) simp_all
  then show "h \<in> set (map (\<lambda>i. 3 * i + 2) [0..<n])" by simp
qed

lemma Links_closed:
  "Links \<lparr>resources = triples mk_node mk_radio 0 idx rs @ map (\<lambda>b. NodeR (mk b)) bs,
          spectrum = s\<rparr> = map (\<lambda>i. 3 * i) [0..<length rs]"
proof -
  let ?T = "triples mk_node mk_radio 0 idx rs" and ?M = "map (\<lambda>b. NodeR (mk b)) bs"
  let ?n = "length rs" and ?m = "length bs"
  have split: "[0..<3 * ?n + ?m] = [0..<3 * ?n] @ [3 * ?n..<3 * ?n + ?m]"
    using upt_add_eq_append [of 0 "3 * ?n" ?m] by simp
  have l: "filter (\<lambda>h. is_link ((?T @ ?M) ! h)) [0..<3 * ?n] = filter (\<lambda>h. h mod 3 = 0) [0..<3 * ?n]"
    by (rule filter_cong) (simp_all add: nth_append triples_kind)
  have r: "filter (\<lambda>h. is_link ((?T @ ?M) ! h)) [3 * ?n..<3 * ?n + ?m] = []"
    by (auto simp add: filter_empty_conv nth_append)
  show ?thesis
    using filter_mod3 [of 0 ?n] by (simp add: Links_def split l r)
qed

lemma RadioComponents_closed:
  "RadioComponents \<lparr>resources = triples mk_node mk_radio 0 idx rs @ map (\<lambda>b. NodeR (mk b)) bs,
          spectrum = s\<rparr> = map (\<lambda>i. 3 * i + 2) [0..<length rs]"
proof -
  let ?T = "triples mk_node mk_radio 0 idx rs" and ?M = "map (\<lambda>b. NodeR (mk b)) bs"
  let ?n = "length rs" and ?m = "length bs"
  let ?R = "map (\<lambda>i. 3 * i + 2) [0..<?n]"
  have split: "[0..<3 * ?n + ?m] = [0..<3 * ?n] @ [3 * ?n..<3 * ?n + ?m]"
    using upt_add_eq_append [of 0 "3 * ?n" ?m] by simp
  have pt: "(is_node ((?T @ ?M) ! h) \<and> h < 3 * ?n \<and> h mod 3 = 2) = (h mod 3 = 2)"
    if "h < 3 * ?n" for h
    using that triples_kind [OF that, of mk_node mk_radio 0 idx] by (auto simp add: nth_append)
  have l: "filter (\<lambda>h. is_node ((?T @ ?M) ! h) \<and> h \<in> set ?R) [0..<3 * ?n] =
           filter (\<lambda>h. h mod 3 = 2) [0..<3 * ?n]"
    unfolding in_radio_handles_iff
  proof (rule filter_cong)
    fix h assume "h \<in> set [0..<3 * ?n]"
    then have "h < 3 * ?n" by simp
    then show "(is_node ((?T @ ?M) ! h) \<and> h < 3 * ?n \<and> h mod 3 = 2) = (h mod 3 = 2)"
      by (rule pt)
  qed simp
  have r: "filter (\<lambda>h. is_node ((?T @ ?M) ! h) \<and> h \<in> set ?R) [3 * ?n..<3 * ?n + ?m] = []"
    unfolding filter_empty_conv in_radio_handles_iff by simp
  have "RadioComponents \<lparr>resources = ?T @ ?M, spectrum = s\<rparr> =
        filter (\<lambda>h. is_node ((?T @ ?M) ! h) \<and> h \<in> set ?R) [0..<3 * ?n + ?m]"
    unfolding RadioComponents_def radio_handles_closed by simp
  also have "\<dots> = filter (\<lambda>h. h mod 3 = 2) [0..<3 * ?n]"
    unfolding split filter_append l r by simp
  finally show ?thesis using filter_mod3 [of 2 ?n] by simp
qed

lemma ResourceNodes_closed:
  "ResourceNodes \<lparr>resources = triples mk_node mk_radio 0 idx rs @ map (\<lambda>b. NodeR (mk b)) bs,
          spectrum = s\<rparr> =
     map (\<lambda>i. 3 * i + 1) [0..<length rs] @ [3 * length rs..<3 * length rs + length bs]"
proof -
  let ?T = "triples mk_node mk_radio 0 idx rs" and ?M = "map (\<lambda>b. NodeR (mk b)) bs"
  let ?n = "length rs" and ?m = "length bs"
  let ?R = "map (\<lambda>i. 3 * i + 2) [0..<?n]"
  have split: "[0..<3 * ?n + ?m] = [0..<3 * ?n] @ [3 * ?n..<3 * ?n + ?m]"
    using upt_add_eq_append [of 0 "3 * ?n" ?m] by simp
  have pt: "(is_node ((?T @ ?M) ! h) \<and> \<not> (h < 3 * ?n \<and> h mod 3 = 2)) = (h mod 3 = 1)"
    if "h < 3 * ?n" for h
  proof -
    have "(h mod 3 \<noteq> 0 \<and> h mod 3 \<noteq> 2) = (h mod 3 = 1)" by presburger
    with that triples_kind [OF that, of mk_node mk_radio 0 idx] show ?thesis
      by (simp add: nth_append)
  qed
  have l: "filter (\<lambda>h. is_node ((?T @ ?M) ! h) \<and> h \<notin> set ?R) [0..<3 * ?n] =
           filter (\<lambda>h. h mod 3 = 1) [0..<3 * ?n]"
    unfolding in_radio_handles_iff
  proof (rule filter_cong)
    fix h assume "h \<in> set [0..<3 * ?n]"
    then have "h < 3 * ?n" by simp
    then show "(is_node ((?T @ ?M) ! h) \<and> \<not> (h < 3 * ?n \<and> h mod 3 = 2)) = (h mod 3 = 1)"
      by (rule pt)
  qed simp
  have r: "filter (\<lambda>h. is_node ((?T @ ?M) ! h) \<and> h \<notin> set ?R) [3 * ?n..<3 * ?n + ?m] =
           [3 * ?n..<3 * ?n + ?m]"
    unfolding filter_id_conv in_radio_handles_iff by (auto simp add: nth_append)
  have "ResourceNodes \<lparr>resources = ?T @ ?M, spectrum = s\<rparr> =
        filter (\<lambda>h. is_node ((?T @ ?M) ! h) \<and> h \<notin> set ?R) [0..<3 * ?n + ?m]"
    unfolding ResourceNodes_def radio_handles_closed by simp
  also have "\<dots> = filter (\<lambda>h. h mod 3 = 1) [0..<3 * ?n] @ [3 * ?n..<3 * ?n + ?m]"
    unfolding split filter_append l r by simp
  finally show ?thesis using filter_mod3 [of 1 ?n] by simp
qed

lemma resources_at_link:
  "i < length rs \<Longrightarrow>
     (triples mk_node mk_radio 0 idx rs @ map (\<lambda>b. NodeR (mk b)) bs) ! (3 * i) =
       LinkR (radio_link_of (3 * i) (idx + i))"
  using triples_nth [of i rs mk_node mk_radio 0 idx] by (simp add: nth_append)

lemma resources_at_node:
  "i < length rs \<Longrightarrow>
     (triples mk_node mk_radio 0 idx rs @ map (\<lambda>b. NodeR (mk b)) bs) ! (3 * i + 1) =
       NodeR (mk_node (rs ! i))"
  using triples_nth [of i rs mk_node mk_radio 0 idx] by (simp add: nth_append)

lemma resources_at_radio:
  "i < length rs \<Longrightarrow>
     (triples mk_node mk_radio 0 idx rs @ map (\<lambda>b. NodeR (mk b)) bs) ! (3 * i + 2) =
       NodeR (mk_radio (rs ! i))"
  using triples_nth [of i rs mk_node mk_radio 0 idx] by (simp add: nth_append)

lemma resources_at_ue:
  "j < length bs \<Longrightarrow>
     (triples mk_node mk_radio 0 idx rs @ map (\<lambda>b. NodeR (mk b)) bs) ! (3 * length rs + j) =
       NodeR (mk (bs ! j))"
  by (simp add: nth_append)

section \<open>The profiles at their defaults\<close>

lemma otalab_defaults_run: "srslte_otalab otalab_defaults = Inr otalab_defaults_request"
  by (simp add: srslte_otalab_closed no_errors_iff otalab_defaults_def otalab_defaults_request_def
      comp_node_otalab_def radio_node_otalab_def ue_node_otalab_def radio_link_of_def
      SRSLTE_IMG_def MNGR_ID_def str_of_nat.simps)

lemma profile_defaults_run: "profile profile_defaults = Inr profile_defaults_request"
  by (simp add: profile_closed profile_defaults_def profile_defaults_request_def
      comp_node_def radio_node_def ue_node_def radio_link_of_def setup_command_def
      str_of_nat.simps)

section \<open>Frequency validation of the OTA-lab profile\<close>

text \<open>
  Claim C2. For every frequency parameter set of the OTA-lab profile in which both maxima
  exceed their minima by at least 1 MHz and all four bounds lie within 3358 to 3600 MHz, the
  four checks report no parameter error, \<^verbatim>\<open>verifyParameters\<close> lets the script go on, and the
  script prints the request it builds: the two builder loops run on a fresh request, followed
  by the uplink and the downlink spectrum reservation.
\<close>

theorem otalab_valid_frequencies_accepted:
  assumes "1 \<le> ul_freq_max params - ul_freq_min params"
    and "1 \<le> dl_freq_max params - dl_freq_min params"
    and "3358 \<le> ul_freq_min params" and "ul_freq_min params \<le> 3600"
    and "3358 \<le> ul_freq_max params" and "ul_freq_max params \<le> 3600"
    and "3358 \<le> dl_freq_min params" and "dl_freq_min params \<le> 3600"
    and "3358 \<le> dl_freq_max params" and "dl_freq_max params \<le> 3600"
  shows "parameterErrors (check_frequency_parameters params \<lparr>parameterErrors = []\<rparr>) = [] \<and>
         srslte_otalab params =
           Inr (requestSpectrum (dl_freq_min params) (dl_freq_max params) 0
                 (requestSpectrum (ul_freq_min params) (ul_freq_max params) 0
                   (b210_pairs_otalab params (x310_pairs_otalab params makeRequestRSpec))))"
proof -
  from assms
  have "parameterErrors (check_frequency_parameters params \<lparr>parameterErrors = []\<rparr>) = []"
    by (simp add: no_errors_iff)
  then show ?thesis
    by (simp add: srslte_otalab_def verifyParameters_def)
qed

theorem otalab_valid_frequencies_accepted_witness:
  "1 \<le> ul_freq_max otalab_defaults - ul_freq_min otalab_defaults \<and>
   1 \<le> dl_freq_max otalab_defaults - dl_freq_min otalab_defaults \<and>
   3358 \<le> ul_freq_min otalab_defaults \<and> ul_freq_min otalab_defaults \<le> 3600 \<and>
   3358 \<le> ul_freq_max otalab_defaults \<and> ul_freq_max otalab_defaults \<le> 3600 \<and>
   3358 \<le> dl_freq_min otalab_defaults \<and> dl_freq_min otalab_defaults \<le> 3600 \<and>
   3358 \<le> dl_freq_max otalab_defaults \<and> dl_freq_max otalab_defaults \<le> 3600 \<and>
   parameterErrors (check_frequency_parameters otalab_defaults \<lparr>parameterErrors = []\<rparr>) = [] \<and>
   srslte_otalab otalab_defaults =
     Inr (requestSpectrum 3580 3600 0
           (requestSpectrum 3550 3570 0
             (b210_pairs_otalab otalab_defaults
               (x310_pairs_otalab otalab_defaults makeRequestRSpec))))"
  using otalab_valid_frequencies_accepted [of otalab_defaults]
  by (simp add: otalab_defaults_def)

lemma reported_errors:
  "parameterErrors (check_frequency_parameters params \<lparr>parameterErrors = []\<rparr>) =
     (if ul_freq_min params < 3358 \<or> ul_freq_min params > 3600
         \<or> ul_freq_max params < 3358 \<or> ul_freq_max params > 3600
      then [\<lparr>message = ''CBAND uplink frequencies must be between 3358 and 3600 MHz'',
             paramList = [''ul_freq_min'', ''ul_freq_max'']\<rparr>] else [])
     @ (if ul_freq_max params - ul_freq_min params < 1
        then [\<lparr>message = ''Minimum and maximum frequencies must be separated by at least 1 MHz'',
               paramList = [''ul_freq_min'', ''ul_freq_max'']\<rparr>] else [])
     @ (if dl_freq_min params < 3358 \<or> dl_freq_min params > 3600
         \<or> dl_freq_max params < 3358 \<or> dl_freq_max params > 3600
        then [\<lparr>message = ''CBAND downlink frequencies must be between 3358 and 3600 MHz'',
               paramList = [''dl_freq_min'', ''dl_freq_max'']\<rparr>] else [])
     @ (if dl_freq_max params - dl_freq_min params < 1
        then [\<lparr>message = ''Minimum and maximum frequencies must be separated by at least 1 MHz'',
               paramList = [''dl_freq_min'', ''dl_freq_max'']\<rparr>] else [])"
  by (simp add: check_frequency_parameters_def reportError_def Let_def)

lemma srslte_otalab_halts:
  "parameterErrors (check_frequency_parameters params \<lparr>parameterErrors = []\<rparr>) \<noteq> [] \<Longrightarrow>
     srslte_otalab params =
       Inl (parameterErrors (check_frequency_parameters params \<lparr>parameterErrors = []\<rparr>))"
  by (simp add: srslte_otalab_def verifyParameters_def)




text \<open>
  Claim C4. For every frequency parameter set of the OTA-lab profile that violates a band
  bound or a minimum separation, at least one parameter error is reported, the script halts
  in \<^verbatim>\<open>verifyParameters\<close> with the reported errors, and no request is printed: the halt
  comes before \<^verbatim>\<open>makeRequestRSpec\<close>, so no node, link or spectrum reservation is ever
  added.
\<close>

theorem otalab_violation_emits_nothing:
  assumes "ul_freq_min params < 3358 \<or> ul_freq_min params > 3600
         \<or> ul_freq_max params < 3358 \<or> ul_freq_max params > 3600
         \<or> ul_freq_max params - ul_freq_min params < 1
         \<or> dl_freq_min params < 3358 \<or> dl_freq_min params > 3600
         \<or> dl_freq_max params < 3358 \<or> dl_freq_max params > 3600
         \<or> dl_freq_max params - dl_freq_min params < 1"
  shows "parameterErrors (check_frequency_parameters params \<lparr>parameterErrors = []\<rparr>) \<noteq> [] \<and>
         srslte_otalab params =
           Inl (parameterErrors (check_frequency_parameters params \<lparr>parameterErrors = []\<rparr>)) \<and>
         (\<forall>request. srslte_otalab params \<noteq> Inr request)"
proof -
  from assms
  have "parameterErrors (check_frequency_parameters params \<lparr>parameterErrors = []\<rparr>) \<noteq> []"
    unfolding no_errors_iff by auto
  then show ?thesis
    by (simp add: srslte_otalab_halts)
qed

theorem otalab_violation_emits_nothing_witness:
  "ul_freq_max (otalab_defaults\<lparr>ul_freq_min := 3550, ul_freq_max := 3550.5\<rparr>)
     - ul_freq_min (otalab_defaults\<lparr>ul_freq_min := 3550, ul_freq_max := 3550.5\<rparr>) < 1 \<and>
   srslte_otalab (otalab_defaults\<lparr>ul_freq_min := 3550, ul_freq_max := 3550.5\<rparr>) =
     Inl [\<lparr>message = ''Minimum and maximum frequencies must be separated by at least 1 MHz'',
           paramList = [''ul_freq_min'', ''ul_freq_max'']\<rparr>] \<and>
   (\<forall>request.
      srslte_otalab (otalab_defaults\<lparr>ul_freq_min := 3550, ul_freq_max := 3550.5\<rparr>)
        \<noteq> Inr request)"
  using otalab_violation_emits_nothing
    [of "otalab_defaults\<lparr>ul_freq_min := 3550, ul_freq_max := 3550.5\<rparr>"]
  by (simp add: reported_errors otalab_defaults_def)

text \<open>
  Claim C9. The frequency checks of the OTA-lab profile are inclusive at every boundary: a
  parameter set that is within the band and separated when the comparisons are read as
  non-strict, and that has a bound exactly equal to 3358 or to 3600, or a maximum exactly
  1 MHz above its minimum, passes validation with no error reported.
\<close>

theorem otalab_boundaries_inclusive:
  assumes "3358 \<le> ul_freq_min params" and "ul_freq_min params \<le> 3600"
    and "3358 \<le> ul_freq_max params" and "ul_freq_max params \<le> 3600"
    and "3358 \<le> dl_freq_min params" and "dl_freq_min params \<le> 3600"
    and "3358 \<le> dl_freq_max params" and "dl_freq_max params \<le> 3600"
    and "1 \<le> ul_freq_max params - ul_freq_min params"
    and "1 \<le> dl_freq_max params - dl_freq_min params"
    and "ul_freq_min params = 3358 \<or> ul_freq_max params = 3358
       \<or> dl_freq_min params = 3358 \<or> dl_freq_max params = 3358
       \<or> ul_freq_min params = 3600 \<or> ul_freq_max params = 3600
       \<or> dl_freq_min params = 3600 \<or> dl_freq_max params = 3600
       \<or> ul_freq_max params - ul_freq_min params = 1
       \<or> dl_freq_max params - dl_freq_min params = 1"
  shows "verifyParameters (check_frequency_parameters params \<lparr>parameterErrors = []\<rparr>) =
           Inr \<lparr>parameterErrors = []\<rparr>"
proof -
  from assms
  have "parameterErrors (check_frequency_parameters params \<lparr>parameterErrors = []\<rparr>) = []"
    by (simp add: no_errors_iff)
  then show ?thesis
    by (simp add: verifyParameters_def)
qed

theorem otalab_boundaries_inclusive_witness:
  "verifyParameters (check_frequency_parameters
      (otalab_defaults\<lparr>ul_freq_min := 3358, ul_freq_max := 3359,
                        dl_freq_min := 3599, dl_freq_max := 3600\<rparr>)
      \<lparr>parameterErrors = []\<rparr>) = Inr \<lparr>parameterErrors = []\<rparr>"
  using otalab_boundaries_inclusive
    [of "otalab_defaults\<lparr>ul_freq_min := 3358, ul_freq_max := 3359,
                          dl_freq_min := 3599, dl_freq_max := 3600\<rparr>"]
  by (simp add: otalab_defaults_def)

section \<open>The end-to-end scenario of the OTA-lab profile\<close>

text \<open>
  Claim C1, as stated, fails. On uplink 2500 to 2510 MHz and downlink 2620 to 2630 MHz, with
  one X310 and one B210 selection, the OTA-lab profile reports the uplink and the downlink
  out-of-band error and halts; it emits no request.
\<close>

theorem otalab_scenario_2500_rejected:
  "srslte_otalab
      (otalab_defaults\<lparr>ul_freq_min := 2500, ul_freq_max := 2510,
                        dl_freq_min := 2620, dl_freq_max := 2630\<rparr>) =
     Inl [\<lparr>message = ''CBAND uplink frequencies must be between 3358 and 3600 MHz'',
           paramList = [''ul_freq_min'', ''ul_freq_max'']\<rparr>,
          \<lparr>message = ''CBAND downlink frequencies must be between 3358 and 3600 MHz'',
           paramList = [''dl_freq_min'', ''dl_freq_max'']\<rparr>]"
  by (simp add: srslte_otalab_closed reported_errors otalab_defaults_def)

text \<open>
  Claim C1, amended. For the OTA-lab profile, on frequencies within 3358 to 3600 MHz whose
  maxima exceed their minima by at least 1 MHz, with one base-station selection and one
  fixed-endpoint selection, the program emits a request of four resources: one base-station
  triple (the link, the compute node named after the radio with suffix \<^verbatim>\<open>-comp\<close>, the radio
  component with the radio's identifier; the link joins the node's \<^verbatim>\<open>usrp_if\<close> interface and
  the radio), one fixed-endpoint node, and exactly two spectrum reservations: (uplink
  minimum, uplink maximum, 0) and (downlink minimum, downlink maximum, 0).
\<close>

theorem otalab_one_pair_one_node:
  assumes "3358 \<le> ul_freq_min params" and "ul_freq_min params \<le> 3600"
    and "3358 \<le> ul_freq_max params" and "ul_freq_max params \<le> 3600"
    and "3358 \<le> dl_freq_min params" and "dl_freq_min params \<le> 3600"
    and "3358 \<le> dl_freq_max params" and "dl_freq_max params \<le> 3600"
    and "1 \<le> ul_freq_max params - ul_freq_min params"
    and "1 \<le> dl_freq_max params - dl_freq_min params"
    and "otalab_params.x310_radios params = [r]"
    and "otalab_params.b210_nodes params = [b]"
  shows "\<exists>request l node radio ue.
           srslte_otalab params = Inr request \<and>
           resources request = [LinkR l, NodeR node, NodeR radio, NodeR ue] \<and>
           Links request = [0] \<and> ResourceNodes request = [1, 3] \<and>
           RadioComponents request = [2] \<and>
           endpoints l = [InterfaceOf 1 ''usrp_if'', NodeOf 2] \<and>
           node_name node = radio_name r @ ''-comp'' \<and>
           map if_name (interfaces node) = [''usrp_if''] \<and>
           component_id radio = Some (radio_name r) \<and>
           node_name ue = node_id b @ ''-b210'' \<and>
           spectrum request = [(ul_freq_min params, ul_freq_max params, 0),
                               (dl_freq_min params, dl_freq_max params, 0)]"
proof -
  let ?request = "\<lparr>resources =
      triples (comp_node_otalab params) radio_node_otalab 0 0 [r] @ map (\<lambda>b. NodeR (ue_node_otalab b)) [b],
    spectrum = [(ul_freq_min params, ul_freq_max params, 0),
                (dl_freq_min params, dl_freq_max params, 0)]\<rparr>"
  from assms
  have "parameterErrors (check_frequency_parameters params \<lparr>parameterErrors = []\<rparr>) = []"
    by (simp add: no_errors_iff)
  with assms(11,12) have run: "srslte_otalab params = Inr ?request"
    by (simp add: srslte_otalab_closed)
  have "Links ?request = [0]" "ResourceNodes ?request = [1, 3]" "RadioComponents ?request = [2]"
    unfolding Links_closed ResourceNodes_closed RadioComponents_closed
    by (simp_all add: upt_conv_Cons)
  with run show ?thesis
    by (simp add: radio_link_of_def comp_node_otalab_def radio_node_otalab_def ue_node_otalab_def)
qed

theorem otalab_one_pair_one_node_witness:
  "otalab_params.x310_radios otalab_defaults = [\<lparr>radio_name = ''ota-x310-1''\<rparr>] \<and>
   otalab_params.b210_nodes otalab_defaults = [\<lparr>node_id = ''ota-nuc1''\<rparr>] \<and>
   (\<exists>request l node radio ue.
     srslte_otalab otalab_defaults = Inr request \<and>
     resources request = [LinkR l, NodeR node, NodeR radio, NodeR ue] \<and>
     Links request = [0] \<and> ResourceNodes request = [1, 3] \<and>
     RadioComponents request = [2] \<and>
     endpoints l = [InterfaceOf 1 ''usrp_if'', NodeOf 2] \<and>
     node_name node = ''ota-x310-1-comp'' \<and>
     map if_name (interfaces node) = [''usrp_if''] \<and>
     component_id radio = Some ''ota-x310-1'' \<and>
     node_name ue = ''ota-nuc1-b210'' \<and>
     spectrum request = [(3550, 3570, 0), (3580, 3600, 0)])"
  using otalab_one_pair_one_node
    [of otalab_defaults "\<lparr>radio_name = ''ota-x310-1''\<rparr>" "\<lparr>node_id = ''ota-nuc1''\<rparr>"]
  by (simp add: otalab_defaults_def)

section \<open>The pair builders\<close>

lemma kind_counts:
  fixes mk :: "'b \<Rightarrow> RawPC"
  shows "length (Links \<lparr>resources = triples mk_node mk_radio 0 idx rs @ map (\<lambda>b. NodeR (mk b)) bs,
                   spectrum = s\<rparr>) = length rs"
    and "length (RadioComponents
                  \<lparr>resources = triples mk_node mk_radio 0 idx rs @ map (\<lambda>b. NodeR (mk b)) bs,
                   spectrum = s\<rparr>) = length rs"
    and "length (ResourceNodes
                  \<lparr>resources = triples mk_node mk_radio 0 idx rs @ map (\<lambda>b. NodeR (mk b)) bs,
                   spectrum = s\<rparr>) = length rs + length bs"
  by (simp_all add: Links_closed RadioComponents_closed ResourceNodes_closed)

lemma triple_handles:
  fixes mk :: "'b \<Rightarrow> RawPC"
  assumes "i < length rs"
  shows "Links \<lparr>resources = triples mk_node mk_radio 0 idx rs @ map (\<lambda>b. NodeR (mk b)) bs,
               spectrum = s\<rparr> ! i = 3 * i"
    and "ResourceNodes
              \<lparr>resources = triples mk_node mk_radio 0 idx rs @ map (\<lambda>b. NodeR (mk b)) bs,
               spectrum = s\<rparr> ! i = 3 * i + 1"
    and "RadioComponents
              \<lparr>resources = triples mk_node mk_radio 0 idx rs @ map (\<lambda>b. NodeR (mk b)) bs,
               spectrum = s\<rparr> ! i = 3 * i + 2"
  using assms
  by (simp_all add: Links_closed RadioComponents_closed ResourceNodes_closed nth_append)

lemma link_joins_pair_closed:
  fixes mk :: "'b \<Rightarrow> RawPC"
  assumes i: "i < length rs"
    and "''usrp_if'' \<in> set (map if_name (interfaces (mk_node (rs ! i))))"
    and "node_name (mk_node (rs ! i)) = radio_name (rs ! i) @ ''-comp''"
    and "component_id (mk_radio (rs ! i)) = Some (radio_name (rs ! i))"
  shows "link_joins_pair
           \<lparr>resources = triples mk_node mk_radio 0 0 rs @ map (\<lambda>b. NodeR (mk b)) bs,
            spectrum = s\<rparr> i (rs ! i)"
  unfolding link_joins_pair_def triple_handles [OF i] Request.select_convs
    resources_at_link [OF i] resources_at_node [OF i] resources_at_radio [OF i]
  using assms(2-)
  by (simp add: radio_link_of_def)

lemmas kind_counts_pairs = kind_counts [where bs = "[]", simplified]

lemmas link_joins_pair_pairs = link_joins_pair_closed [where bs = "[]", simplified]

lemma x310_pairs_otalab_fresh:
  "x310_pairs_otalab params makeRequestRSpec =
      \<lparr>resources = triples (comp_node_otalab params) radio_node_otalab 0 0
                     (otalab_params.x310_radios params),
       spectrum = []\<rparr>"
  by (simp add: x310_pairs_otalab_appends makeRequestRSpec_def)

lemma x310_pairs_fresh:
  "x310_pairs params makeRequestRSpec =
      \<lparr>resources = triples (comp_node params) radio_node 0 0 (x310_radios params),
       spectrum = []\<rparr>"
  by (simp add: x310_pairs_appends makeRequestRSpec_def)

lemma link_cases:
  fixes mk :: "'b \<Rightarrow> RawPC"
  assumes "h \<in> set (Links \<lparr>resources = triples mk_node mk_radio 0 idx rs
                                        @ map (\<lambda>b. NodeR (mk b)) bs, spectrum = s\<rparr>)"
  shows "\<exists>i<length rs.
           (triples mk_node mk_radio 0 idx rs @ map (\<lambda>b. NodeR (mk b)) bs) ! h =
             LinkR (radio_link_of (3 * i) (idx + i))"
proof -
  from assms obtain i where i: "i < length rs" and h: "h = 3 * i"
    unfolding Links_closed by auto
  from resources_at_link [OF i, of mk_node mk_radio idx mk bs] i show ?thesis
    unfolding h by blast
qed

lemma resource_node_cases:
  fixes mk :: "'b \<Rightarrow> RawPC"
  assumes "h \<in> set (ResourceNodes \<lparr>resources = triples mk_node mk_radio 0 idx rs
                                        @ map (\<lambda>b. NodeR (mk b)) bs, spectrum = s\<rparr>)"
  shows "(\<exists>i<length rs.
            (triples mk_node mk_radio 0 idx rs @ map (\<lambda>b. NodeR (mk b)) bs) ! h =
              NodeR (mk_node (rs ! i))) \<or>
         (\<exists>j<length bs.
            (triples mk_node mk_radio 0 idx rs @ map (\<lambda>b. NodeR (mk b)) bs) ! h =
              NodeR (mk (bs ! j)))"
proof -
  from assms
  have "h \<in> (\<lambda>i. 3 * i + 1) ` {0..<length rs} \<or>
        h \<in> {3 * length rs..<3 * length rs + length bs}"
    unfolding ResourceNodes_closed by auto
  then show ?thesis
  proof
    assume "h \<in> (\<lambda>i. 3 * i + 1) ` {0..<length rs}"
    then obtain i where i: "i < length rs" and h: "h = 3 * i + 1" by auto
    from resources_at_node [OF i, of mk_node mk_radio idx mk bs] i show ?thesis
      unfolding h by blast
  next
    assume "h \<in> {3 * length rs..<3 * length rs + length bs}"
    then obtain j where j: "j < length bs" and h: "h = 3 * length rs + j"
      using le_Suc_ex [of "3 * length rs" h] by auto
    from resources_at_ue [OF j, of mk_node mk_radio idx rs mk] j show ?thesis
      unfolding h by blast
  qed
qed

lemma srslte_otalab_request:
  assumes "srslte_otalab params = Inr request"
  shows "request =
     \<lparr>resources = triples (comp_node_otalab params) radio_node_otalab 0 0
                    (otalab_params.x310_radios params)
                  @ map (\<lambda>b. NodeR (ue_node_otalab b)) (otalab_params.b210_nodes params),
      spectrum = [(ul_freq_min params, ul_freq_max params, 0),
                  (dl_freq_min params, dl_freq_max params, 0)]\<rparr>"
  using assms unfolding srslte_otalab_closed by (simp split: if_splits)

lemma profile_request:
  assumes "profile params = Inr request"
  shows "request =
     \<lparr>resources = triples (comp_node params) radio_node 0 0 (x310_radios params)
                  @ map (\<lambda>b. NodeR (ue_node params b)) (b210_nodes params),
      spectrum = []\<rparr>"
  using assms unfolding profile_closed by simp

lemma links_bandwidth:
  fixes mk :: "'b \<Rightarrow> RawPC"
  assumes "h \<in> set (Links \<lparr>resources = triples mk_node mk_radio 0 idx rs
                                        @ map (\<lambda>b. NodeR (mk b)) bs, spectrum = s\<rparr>)"
  shows "\<exists>l. resources \<lparr>resources = triples mk_node mk_radio 0 idx rs
                                     @ map (\<lambda>b. NodeR (mk b)) bs, spectrum = s\<rparr> ! h = LinkR l
             \<and> bandwidth l = Some 10000000"
  using link_cases [OF assms] by (auto simp add: radio_link_of_def)

text \<open>
  Claim C5. For any ordered list of N base-station (X310) radio selections, the pairing
  builder of either profile, run on a fresh request, produces exactly N ResourceNodes,
  exactly N RadioComponents and exactly N Links, and for every selection the link of its
  triple connects exactly two ends: the \<^verbatim>\<open>usrp_if\<close> interface of the triple's ResourceNode
  and the triple's RadioComponent, both built from that selection.
\<close>

theorem x310_pairing_builds_triples:
  "(let request = x310_pairs_otalab params makeRequestRSpec;
        radios = otalab_params.x310_radios params
    in length (ResourceNodes request) = length radios \<and>
       length (RadioComponents request) = length radios \<and>
       length (Links request) = length radios \<and>
       (\<forall>i<length radios. link_joins_pair request i (radios ! i))) \<and>
   (let request = x310_pairs params' makeRequestRSpec;
        radios = x310_radios params'
    in length (ResourceNodes request) = length radios \<and>
       length (RadioComponents request) = length radios \<and>
       length (Links request) = length radios \<and>
       (\<forall>i<length radios. link_joins_pair request i (radios ! i)))"
  unfolding Let_def x310_pairs_otalab_fresh x310_pairs_fresh
  by (simp add: kind_counts_pairs link_joins_pair_pairs comp_node_otalab_def
      radio_node_otalab_def comp_node_def radio_node_def)

theorem x310_pairing_builds_triples_witness:
  "length (ResourceNodes (x310_pairs_otalab otalab_defaults makeRequestRSpec)) = 1 \<and>
   length (RadioComponents (x310_pairs_otalab otalab_defaults makeRequestRSpec)) = 1 \<and>
   length (Links (x310_pairs_otalab otalab_defaults makeRequestRSpec)) = 1 \<and>
   link_joins_pair (x310_pairs_otalab otalab_defaults makeRequestRSpec) 0
     \<lparr>radio_name = ''ota-x310-1''\<rparr> \<and>
   length (ResourceNodes (x310_pairs profile_defaults makeRequestRSpec)) = 1 \<and>
   length (RadioComponents (x310_pairs profile_defaults makeRequestRSpec)) = 1 \<and>
   length (Links (x310_pairs profile_defaults makeRequestRSpec)) = 1 \<and>
   link_joins_pair (x310_pairs profile_defaults makeRequestRSpec) 0
     \<lparr>radio_name = ''cellsdr1-browning''\<rparr>"
  using x310_pairing_builds_triples [of otalab_defaults profile_defaults]
  by (simp add: Let_def otalab_defaults_def profile_defaults_def)

text \<open>
  Claim C6. In the request either profile prints, the ResourceNode built for the \<open>i\<close>-th
  base-station selection is named by the selected radio's identifier followed by
  \<^verbatim>\<open>-comp\<close>, and its only interface, \<^verbatim>\<open>usrp_if\<close>, carries the one address 192.168.40.1 with
  netmask 255.255.255.0: the same for every pair, whichever radios were selected and however
  many.
\<close>

theorem comp_node_name_and_address:
  "(srslte_otalab params = Inr request \<longrightarrow>
      (\<forall>i<length (otalab_params.x310_radios params). \<exists>node.
         resources request ! (ResourceNodes request ! i) = NodeR node \<and>
         node_name node = radio_name (otalab_params.x310_radios params ! i) @ ''-comp'' \<and>
         interfaces node =
           [\<lparr>if_name = ''usrp_if'',
             addresses = [\<lparr>address = ''192.168.40.1'', netmask = ''255.255.255.0''\<rparr>]\<rparr>])) \<and>
   (profile params' = Inr request' \<longrightarrow>
      (\<forall>i<length (x310_radios params'). \<exists>node.
         resources request' ! (ResourceNodes request' ! i) = NodeR node \<and>
         node_name node = radio_name (x310_radios params' ! i) @ ''-comp'' \<and>
         interfaces node =
           [\<lparr>if_name = ''usrp_if'',
             addresses = [\<lparr>address = ''192.168.40.1'', netmask = ''255.255.255.0''\<rparr>]\<rparr>]))"
proof (intro conjI impI allI)
  fix i
  assume run: "srslte_otalab params = Inr request"
    and i: "i < length (otalab_params.x310_radios params)"
  show "\<exists>node.
         resources request ! (ResourceNodes request ! i) = NodeR node \<and>
         node_name node = radio_name (otalab_params.x310_radios params ! i) @ ''-comp'' \<and>
         interfaces node =
           [\<lparr>if_name = ''usrp_if'',
             addresses = [\<lparr>address = ''192.168.40.1'', netmask = ''255.255.255.0''\<rparr>]\<rparr>]"
    unfolding srslte_otalab_request [OF run] triple_handles [OF i] Request.select_convs
      resources_at_node [OF i]
    by (simp add: comp_node_otalab_def)
next
  fix i
  assume run: "profile params' = Inr request'"
    and i: "i < length (x310_radios params')"
  show "\<exists>node.
         resources request' ! (ResourceNodes request' ! i) = NodeR node \<and>
         node_name node = radio_name (x310_radios params' ! i) @ ''-comp'' \<and>
         interfaces node =
           [\<lparr>if_name = ''usrp_if'',
             addresses = [\<lparr>address = ''192.168.40.1'', netmask = ''255.255.255.0''\<rparr>]\<rparr>]"
    unfolding profile_request [OF run] triple_handles [OF i] Request.select_convs
      resources_at_node [OF i]
    by (simp add: comp_node_def)
qed

theorem comp_node_name_and_address_witness:
  "srslte_otalab otalab_defaults = Inr otalab_defaults_request \<and>
   (\<exists>node.
      resources otalab_defaults_request ! (ResourceNodes otalab_defaults_request ! 0) = NodeR node \<and>
      node_name node = ''ota-x310-1-comp'' \<and>
      interfaces node =
        [\<lparr>if_name = ''usrp_if'',
          addresses = [\<lparr>address = ''192.168.40.1'', netmask = ''255.255.255.0''\<rparr>]\<rparr>]) \<and>
   profile profile_defaults = Inr profile_defaults_request \<and>
   (\<exists>node.
      resources profile_defaults_request ! (ResourceNodes profile_defaults_request ! 0) = NodeR node \<and>
      node_name node = ''cellsdr1-browning-comp'' \<and>
      interfaces node =
        [\<lparr>if_name = ''usrp_if'',
          addresses = [\<lparr>address = ''192.168.40.1'', netmask = ''255.255.255.0''\<rparr>]\<rparr>])"
  using comp_node_name_and_address
    [of otalab_defaults otalab_defaults_request profile_defaults profile_defaults_request]
    otalab_defaults_run profile_defaults_run
  by (simp add: otalab_defaults_def profile_defaults_def)

text \<open>
  Claim C7. In the request either profile prints there is one link per base-station
  selection, and the bandwidth attribute of every link is 10 * 1000 * 1000 = 10 000 000
  (10 Mb/s when the attribute is read in bits per second, as the specification reads it),
  whatever the selected radios and the other parameters are.
\<close>

theorem radio_link_bandwidth:
  "(srslte_otalab params = Inr request \<longrightarrow>
      length (Links request) = length (otalab_params.x310_radios params) \<and>
      (\<forall>h\<in>set (Links request). \<exists>l.
         resources request ! h = LinkR l \<and> bandwidth l = Some 10000000)) \<and>
   (profile params' = Inr request' \<longrightarrow>
      length (Links request') = length (x310_radios params') \<and>
      (\<forall>h\<in>set (Links request'). \<exists>l.
         resources request' ! h = LinkR l \<and> bandwidth l = Some 10000000))"
proof (intro conjI impI ballI)
  assume run: "srslte_otalab params = Inr request"
  show "length (Links request) = length (otalab_params.x310_radios params)"
    unfolding srslte_otalab_request [OF run] by (rule kind_counts)
  fix h assume "h \<in> set (Links request)"
  then show "\<exists>l. resources request ! h = LinkR l \<and> bandwidth l = Some 10000000"
    unfolding srslte_otalab_request [OF run] by (rule links_bandwidth)
next
  assume run: "profile params' = Inr request'"
  show "length (Links request') = length (x310_radios params')"
    unfolding profile_request [OF run] by (rule kind_counts)
  fix h assume "h \<in> set (Links request')"
  then show "\<exists>l. resources request' ! h = LinkR l \<and> bandwidth l = Some 10000000"
    unfolding profile_request [OF run] by (rule links_bandwidth)
qed

theorem radio_link_bandwidth_witness:
  "srslte_otalab otalab_defaults = Inr otalab_defaults_request \<and>
   0 \<in> set (Links otalab_defaults_request) \<and>
   (\<exists>l. resources otalab_defaults_request ! 0 = LinkR l \<and> bandwidth l = Some 10000000) \<and>
   profile profile_defaults = Inr profile_defaults_request \<and>
   0 \<in> set (Links profile_defaults_request) \<and>
   (\<exists>l. resources profile_defaults_request ! 0 = LinkR l \<and> bandwidth l = Some 10000000)"
proof -
  have a: "Links otalab_defaults_request = [0]"
    unfolding srslte_otalab_request [OF otalab_defaults_run] Links_closed
    by (simp add: otalab_defaults_def)
  have b: "Links profile_defaults_request = [0]"
    unfolding profile_request [OF profile_defaults_run] Links_closed
    by (simp add: profile_defaults_def)
  from radio_link_bandwidth
    [of otalab_defaults otalab_defaults_request profile_defaults profile_defaults_request]
    otalab_defaults_run profile_defaults_run a b
  show ?thesis by simp
qed

text \<open>
  Claim C10. The general-deployment profile always prints a request, and every ResourceNode
  in it, the compute node of each base-station pair as well as each fixed-endpoint node, has
  as its last boot command \<^verbatim>\<open>/local/repository/bin/setup.sh\<close> followed by a space and the
  token, user and password parameter values joined by single spaces, exactly as given
  (nothing is quoted or escaped). With the default empty values the command is the script
  path followed by three spaces.
\<close>

theorem setup_command_verbatim:
  "\<exists>request.
     profile params = Inr request \<and>
     length (ResourceNodes request) = length (x310_radios params) + length (b210_nodes params) \<and>
     (\<forall>h\<in>set (ResourceNodes request). \<exists>node.
        resources request ! h = NodeR node \<and>
        services node \<noteq> [] \<and>
        last (services node) =
          \<lparr>shell = ''bash'',
           command = ''/local/repository/bin/setup.sh '' @ token params @ '' '' @ user params
                     @ '' '' @ password params\<rparr> \<and>
        (token params = [] \<and> user params = [] \<and> password params = [] \<longrightarrow>
           command (last (services node)) = ''/local/repository/bin/setup.sh   ''))"
proof -
  let ?request = "\<lparr>resources = triples (comp_node params) radio_node 0 0 (x310_radios params)
                  @ map (\<lambda>b. NodeR (ue_node params b)) (b210_nodes params),
      spectrum = []\<rparr>"
  have "\<exists>node. resources ?request ! h = NodeR node \<and>
        services node \<noteq> [] \<and>
        last (services node) =
          \<lparr>shell = ''bash'',
           command = ''/local/repository/bin/setup.sh '' @ token params @ '' '' @ user params
                     @ '' '' @ password params\<rparr> \<and>
        (token params = [] \<and> user params = [] \<and> password params = [] \<longrightarrow>
           command (last (services node)) = ''/local/repository/bin/setup.sh   '')"
    if "h \<in> set (ResourceNodes ?request)" for h
    using resource_node_cases [OF that]
    by (auto simp add: comp_node_def ue_node_def setup_command_def)
  then show ?thesis
    unfolding profile_closed by (simp add: kind_counts)
qed

theorem setup_command_verbatim_witness:
  "profile profile_defaults = Inr profile_defaults_request \<and>
   ResourceNodes profile_defaults_request = [1, 3] \<and>
   (\<exists>node. resources profile_defaults_request ! 1 = NodeR node \<and>
      last (services node) =
        \<lparr>shell = ''bash'', command = ''/local/repository/bin/setup.sh   ''\<rparr>) \<and>
   (\<exists>node. resources profile_defaults_request ! 3 = NodeR node \<and>
      last (services node) =
        \<lparr>shell = ''bash'', command = ''/local/repository/bin/setup.sh   ''\<rparr>)"
proof -
  have a: "ResourceNodes profile_defaults_request = [1, 3]"
    unfolding profile_request [OF profile_defaults_run] ResourceNodes_closed
    by (simp add: profile_defaults_def upt_conv_Cons)
  from setup_command_verbatim [of profile_defaults] profile_defaults_run a
  show ?thesis by (auto simp add: profile_defaults_def)
qed

end
